theory Spec2Isabelle
  imports Main
begin

section \<open>Go values and the library functions main.go calls\<close>

text \<open>
  The server of \<^verbatim>\<open>main.go\<close> is two small mechanisms: the \<^verbatim>\<open>Handler\<close> type, whose
  \<^verbatim>\<open>ServeHTTP\<close> turns a returned error into a fixed 503 response, and \<^verbatim>\<open>FileServer\<close>,
  which mounts a static file server on a chi router. Everything else is net/http, net/url,
  strings, errors and chi. The functions of those packages that main.go calls are written
  out here as far as main.go depends on them, under their Go names.
\<close>

subsection \<open>Errors and panics\<close>

text \<open>\<^verbatim>\<open>errors.New(text)\<close>: an error value that carries its text. A Go \<^verbatim>\<open>error\<close> that may be
  \<^verbatim>\<open>nil\<close> is an \<open>error option\<close>.\<close>

datatype error = errorString string

definition errors_New :: "string \<Rightarrow> error" where
  "errors_New text = errorString text"

text \<open>A panic is either raised by \<^verbatim>\<open>panic(msg)\<close> or by the runtime when a string is
  indexed out of range.\<close>

datatype panic = Panic string | IndexOutOfRange int

subsection \<open>Package strings\<close>

definition ContainsAny :: "string \<Rightarrow> string \<Rightarrow> bool" where
  "ContainsAny s chars = list_ex (\<lambda>c. c \<in> set chars) s"

definition HasPrefix :: "string \<Rightarrow> string \<Rightarrow> bool" where
  "HasPrefix s pre = (length pre \<le> length s \<and> take (length pre) s = pre)"

definition HasSuffix :: "string \<Rightarrow> string \<Rightarrow> bool" where
  "HasSuffix s suf = (length suf \<le> length s \<and> drop (length s - length suf) s = suf)"

definition TrimPrefix :: "string \<Rightarrow> string \<Rightarrow> string" where
  "TrimPrefix s pre = (if HasPrefix s pre then drop (length pre) s else s)"

definition TrimSuffix :: "string \<Rightarrow> string \<Rightarrow> string" where
  "TrimSuffix s suf = (if HasSuffix s suf then take (length s - length suf) s else s)"

text \<open>\<^verbatim>\<open>s[i]\<close>: the runtime panics when \<open>i\<close> is not an index of \<open>s\<close>.\<close>

definition index :: "string \<Rightarrow> int \<Rightarrow> panic + char" where
  "index s i = (if 0 \<le> i \<and> i < int (length s) then Inr (s ! nat i) else Inl (IndexOutOfRange i))"

subsection \<open>The request\<close>

text \<open>\<^verbatim>\<open>url.Values\<close> is a \<^verbatim>\<open>map[string][]string\<close>; \<^verbatim>\<open>Get\<close> returns the first value of a
  key, and the empty string when the key has none.\<close>

type_synonym Values = "string \<Rightarrow> string list option"

definition Values_Get :: "Values \<Rightarrow> string \<Rightarrow> string" where
  "Values_Get v key = (case v key of None \<Rightarrow> [] | Some [] \<Rightarrow> [] | Some (x # _) \<Rightarrow> x)"

text \<open>
  The fields of \<^verbatim>\<open>*http.Request\<close> that the handlers and the router read.
  \<open>URL_Query\<close> is what \<^verbatim>\<open>r.URL.Query()\<close> returns; \<open>RoutePattern\<close> is what
  \<^verbatim>\<open>chi.RouteContext(r.Context()).RoutePattern()\<close> returns, set by the router when it
  dispatches the request.
\<close>

record Request =
  Method :: string
  URL_Path :: string
  URL_RawPath :: string
  URL_Query :: Values
  RoutePattern :: string

subsection \<open>The response writer\<close>

text \<open>
  \<^verbatim>\<open>http.ResponseWriter\<close> as net/http's server implements it. The header map can be
  changed until the status line is written; \<^verbatim>\<open>WriteHeader\<close> fixes the status and the
  headers that are sent, and a second \<^verbatim>\<open>WriteHeader\<close> is ignored; \<^verbatim>\<open>Write\<close> first
  writes the header with status 200 when none was written, and appends to the body when the
  status allows one. \<open>calls\<close> records the calls a handler made on the writer, in order, so
  that "wrote nothing" can be told from "wrote something that changed nothing".
  The status codes written in this program are final ones (200, 301, 404, 503).
\<close>

datatype call = Call_Header_Set string string | Call_WriteHeader nat | Call_Write string

record ResponseWriter =
  handlerHeader :: "string \<Rightarrow> string option"
  wroteHeader :: bool
  status :: nat
  sentHeader :: "string \<Rightarrow> string option"
  body :: string
  calls :: "call list"

definition newResponseWriter :: ResponseWriter where
  "newResponseWriter =
     \<lparr>handlerHeader = Map.empty, wroteHeader = False, status = 0,
      sentHeader = Map.empty, body = [], calls = []\<rparr>"

definition Header_Set :: "ResponseWriter \<Rightarrow> string \<Rightarrow> string \<Rightarrow> ResponseWriter" where
  "Header_Set w key val =
     w\<lparr>handlerHeader := (handlerHeader w)(key \<mapsto> val),
       calls := calls w @ [Call_Header_Set key val]\<rparr>"

definition writeHeader :: "ResponseWriter \<Rightarrow> nat \<Rightarrow> ResponseWriter" where
  "writeHeader w code =
     (if wroteHeader w then w
      else w\<lparr>wroteHeader := True, status := code, sentHeader := handlerHeader w\<rparr>)"

definition WriteHeader :: "ResponseWriter \<Rightarrow> nat \<Rightarrow> ResponseWriter" where
  "WriteHeader w code = writeHeader (w\<lparr>calls := calls w @ [Call_WriteHeader code]\<rparr>) code"

definition bodyAllowedForStatus :: "nat \<Rightarrow> bool" where
  "bodyAllowedForStatus st = (\<not> (100 \<le> st \<and> st \<le> 199) \<and> st \<noteq> 204 \<and> st \<noteq> 304)"

definition Write :: "ResponseWriter \<Rightarrow> string \<Rightarrow> ResponseWriter" where
  "Write w b =
     (let w1 = writeHeader (w\<lparr>calls := calls w @ [Call_Write b]\<rparr>) 200
      in if bodyAllowedForStatus (status w1) then w1\<lparr>body := body w1 @ b\<rparr> else w1)"

text \<open>When the handler has returned, the server sends the header with status 200 if the
  handler never wrote one. What the client sees is \<open>status\<close>, \<open>sentHeader\<close> and \<open>body\<close>
  of the finished writer.\<close>

definition finishRequest :: "ResponseWriter \<Rightarrow> ResponseWriter" where
  "finishRequest w = writeHeader w 200"

section \<open>The error-returning handler (main.go, lines 14 to 22 and 59 to 68)\<close>

text \<open>
  \<^verbatim>\<open>type Handler func(w http.ResponseWriter, r *http.Request) error\<close>.
  A handler receives the writer and the request and leaves the writer in a new state; the
  functions of this type are the handlers that return (normally, with or without an error).
\<close>

type_synonym http_Handler = "ResponseWriter \<Rightarrow> Request \<Rightarrow> ResponseWriter"

type_synonym Handler = "ResponseWriter \<Rightarrow> Request \<Rightarrow> ResponseWriter \<times> error option"

definition ServeHTTP :: "Handler \<Rightarrow> http_Handler" where
  "ServeHTTP h w r =
     (case h w r of
        (w', None) \<Rightarrow> w'
      | (w', Some err) \<Rightarrow> Write (WriteHeader w' 503) ''bad'')"

definition customHandler :: Handler where
  "customHandler w r =
     (let q = Values_Get (URL_Query r) ''err''
      in if q \<noteq> [] then (w, Some (errors_New q))
         else (Write w ''A whole bunch of messages and such'', None))"

section \<open>The router\<close>

text \<open>
  A chi router as far as main.go uses it: a table of routes in the order of registration.
  A route is a method, a pattern and a handler. chi refuses, with a panic and before it
  touches the table, a pattern that does not begin with a slash. The three middlewares
  that \<^verbatim>\<open>main\<close> installs (request id, logger, recoverer) do not change the status or the
  body of a response that a handler produces by returning, and are left out.
\<close>

type_synonym Route = "string \<times> string \<times> http_Handler"

type_synonym Router = "Route list"

definition Mux_handle :: "Router \<Rightarrow> string \<Rightarrow> string \<Rightarrow> http_Handler \<Rightarrow> Router \<times> panic option" where
  "Mux_handle r method pattern handler =
     (if pattern = [] \<or> hd pattern \<noteq> CHR ''/''
      then (r, Some (Panic (''chi: routing pattern must begin with '' @ [CHR 0x27, CHR ''/'', CHR 0x27]
                             @ '' in '' @ [CHR 0x27] @ pattern @ [CHR 0x27])))
      else (r @ [(method, pattern, handler)], None))"

definition Mux_Get :: "Router \<Rightarrow> string \<Rightarrow> http_Handler \<Rightarrow> Router \<times> panic option" where
  "Mux_Get r pattern handler = Mux_handle r ''GET'' pattern handler"

definition Mux_Method :: "Router \<Rightarrow> string \<Rightarrow> string \<Rightarrow> http_Handler \<Rightarrow> Router \<times> panic option" where
  "Mux_Method r method pattern handler = Mux_handle r method pattern handler"

text \<open>
  Dispatch. The router matches the request's raw path when it has one and its path
  otherwise. A pattern that ends in a star matches every path that begins with the text
  before the star; any other pattern (the patterns of this program have no parameters)
  matches itself only. An exact pattern wins over a wildcard, the longest wildcard over a
  shorter one, and a later registration of the same pattern over an earlier one. The
  handler of the route runs with the matched pattern in the request's route context.
  \<open>None\<close>: no route of the table matches, and the router's own not-found or
  method-not-allowed handler answers.
\<close>

definition routePath :: "Request \<Rightarrow> string" where
  "routePath r =
     (let p = (if URL_RawPath r \<noteq> [] then URL_RawPath r else URL_Path r)
      in if p = [] then ''/'' else p)"

definition isWildcard :: "string \<Rightarrow> bool" where
  "isWildcard pattern = (pattern \<noteq> [] \<and> last pattern = CHR ''*'')"

definition matches :: "string \<Rightarrow> string \<Rightarrow> bool" where
  "matches pattern p =
     (if isWildcard pattern then HasPrefix p (butlast pattern) else pattern = p)"

fun longest :: "Route list \<Rightarrow> Route option" where
  "longest [] = None"
| "longest (x # xs) =
     (case longest xs of
        None \<Rightarrow> Some x
      | Some y \<Rightarrow> if length (fst (snd y)) < length (fst (snd x)) then Some x else Some y)"

definition findRoute :: "Router \<Rightarrow> string \<Rightarrow> string \<Rightarrow> Route option" where
  "findRoute rt method p =
     (let cands = filter (\<lambda>x. fst x = method \<and> matches (fst (snd x)) p) rt;
          exact = filter (\<lambda>x. \<not> isWildcard (fst (snd x))) cands
      in if exact \<noteq> [] then Some (last exact)
         else longest (filter (\<lambda>x. isWildcard (fst (snd x))) cands))"

definition Mux_ServeHTTP :: "Router \<Rightarrow> ResponseWriter \<Rightarrow> Request \<Rightarrow> ResponseWriter option" where
  "Mux_ServeHTTP rt w r =
     (case findRoute rt (Method r) (routePath r) of
        None \<Rightarrow> None
      | Some (method, pattern, handler) \<Rightarrow> Some (handler w (r\<lparr>RoutePattern := pattern\<rparr>)))"

text \<open>One request against a router, on a fresh writer, as the server runs it.\<close>

definition serve :: "Router \<Rightarrow> Request \<Rightarrow> ResponseWriter option" where
  "serve rt r = map_option finishRequest (Mux_ServeHTTP rt newResponseWriter r)"

section \<open>The static file mount (main.go, lines 70 to 89)\<close>

text \<open>
  \<^verbatim>\<open>http.NotFound\<close> replies 404 with a plain-text body.
  \<^verbatim>\<open>http.RedirectHandler(url, code)\<close> replies to every request with the status
  \<open>code\<close> and the header \<^verbatim>\<open>Location\<close> set to \<open>url\<close>. (net/http first brings a target
  that is relative or not in clean form into clean form, and for a GET adds a one-line HTML
  note to the body; the model has the target as given and no note. The target \<^verbatim>\<open>/files/\<close>
  is absolute and clean.)
  \<^verbatim>\<open>http.StripPrefix(prefix, h)\<close> removes the prefix from the path and the raw path of
  the request and runs \<open>h\<close> on the copy; it replies 404 when the path (or a raw path that
  is set) does not begin with the prefix; with an empty prefix it is \<open>h\<close>.
\<close>

definition http_NotFound :: http_Handler where
  "http_NotFound w r =
     Write (WriteHeader
              (Header_Set (Header_Set w ''Content-Type'' ''text/plain; charset=utf-8'')
                 ''X-Content-Type-Options'' ''nosniff'')
              404)
       (''404 page not found'' @ [CHR 0x0A])"

definition RedirectHandler :: "string \<Rightarrow> nat \<Rightarrow> http_Handler" where
  "RedirectHandler url code w r = WriteHeader (Header_Set w ''Location'' url) code"

definition StripPrefix :: "string \<Rightarrow> http_Handler \<Rightarrow> http_Handler" where
  "StripPrefix pre h =
     (if pre = [] then h
      else (\<lambda>w r.
        let p = TrimPrefix (URL_Path r) pre;
            rp = TrimPrefix (URL_RawPath r) pre
        in if length p < length (URL_Path r)
              \<and> (URL_RawPath r = [] \<or> length rp < length (URL_RawPath r))
           then h w (r\<lparr>URL_Path := p, URL_RawPath := rp\<rparr>)
           else http_NotFound w r))"

text \<open>
  The handler of the wildcard route (lines 83 to 88). \<open>http_FileServer\<close> stands for
  \<^verbatim>\<open>http.FileServer\<close>, the file-serving primitive of net/http: it makes a handler from a
  file system. The mount does not depend on how it serves a file, so it is a parameter.
\<close>

definition FileServer_handler :: "('fs \<Rightarrow> http_Handler) \<Rightarrow> 'fs \<Rightarrow> http_Handler" where
  "FileServer_handler http_FileServer root w r =
     (let pathPrefix = TrimSuffix (RoutePattern r) ''/*'';
          fs = StripPrefix pathPrefix (http_FileServer root)
      in fs w r)"

text \<open>
  \<^verbatim>\<open>FileServer(r, path, root)\<close>. The router is mutable in Go, so the function returns
  the router as the call leaves it together with the panic that ended it, if any.
  The condition of line 77 reads \<^verbatim>\<open>path[len(path)-1]\<close> only when \<^verbatim>\<open>path != "/"\<close>.
\<close>

definition FileServer :: "('fs \<Rightarrow> http_Handler) \<Rightarrow> Router \<Rightarrow> string \<Rightarrow> 'fs \<Rightarrow> Router \<times> panic option" where
  "FileServer http_FileServer r path root =
     (if ContainsAny path ''{}*''
      then (r, Some (Panic ''FileServer does not permit any URL parameters.''))
      else
        case (if path \<noteq> ''/''
              then (case index path (int (length path) - 1) of
                      Inl p \<Rightarrow> Inl p
                    | Inr c \<Rightarrow> Inr (c \<noteq> CHR ''/''))
              else Inr False) of
          Inl p \<Rightarrow> (r, Some p)
        | Inr noSlash \<Rightarrow>
            (case (if noSlash
                   then (case Mux_Get r path (RedirectHandler (path @ ''/'') 301) of
                           (r1, Some p) \<Rightarrow> (r1, path, Some p)
                         | (r1, None) \<Rightarrow> (r1, path @ ''/'', None))
                   else (r, path, None)) of
               (r1, path1, Some p) \<Rightarrow> (r1, Some p)
             | (r1, path1, None) \<Rightarrow>
                 Mux_Get r1 (path1 @ ''*'') (FileServer_handler http_FileServer root)))"

section \<open>The routes of main (main.go, lines 24 to 56)\<close>

definition hello :: http_Handler where
  "hello w r = Write w ''hello world''"

definition main_routes :: "('fs \<Rightarrow> http_Handler) \<Rightarrow> 'fs \<Rightarrow> Router \<times> panic option" where
  "main_routes http_FileServer filesDir =
     (case Mux_Get [] ''/'' hello of
        (r1, Some p) \<Rightarrow> (r1, Some p)
      | (r1, None) \<Rightarrow>
          (case Mux_Method r1 ''GET'' ''/picture'' (ServeHTTP customHandler) of
             (r2, Some p) \<Rightarrow> (r2, Some p)
           | (r2, None) \<Rightarrow> FileServer http_FileServer r2 ''/files'' filesDir))"

section \<open>Concrete inputs\<close>

text \<open>A stand-in for the file-serving primitive that writes the path it is asked for, a
  GET request for a path with a parsed query, and a wrapped function that writes before it
  fails. They instantiate the theorems below.\<close>

definition echoFileServer :: "unit \<Rightarrow> http_Handler" where
  "echoFileServer root w r = Write w (URL_Path r)"

definition getRequest :: "string \<Rightarrow> Values \<Rightarrow> Request" where
  "getRequest p q = \<lparr>Method = ''GET'', URL_Path = p, URL_RawPath = [], URL_Query = q, RoutePattern = []\<rparr>"

definition partialThenFail :: Handler where
  "partialThenFail w r = (Write w ''partial'', Some (errors_New ''boom''))"

section \<open>Facts about the library functions and the routes\<close>

lemma ContainsAny_iff: "ContainsAny s chars \<longleftrightarrow> (\<exists>c \<in> set s. c \<in> set chars)"
  by (simp add: ContainsAny_def list_ex_iff)

lemma main_routes_eq:
  "main_routes F d =
     ([(''GET'', ''/'', hello),
       (''GET'', ''/picture'', ServeHTTP customHandler),
       (''GET'', ''/files'', RedirectHandler ''/files/'' 301),
       (''GET'', ''/files/*'', FileServer_handler F d)], None)"
  by (simp add: main_routes_def Mux_Get_def Mux_Method_def Mux_handle_def FileServer_def
      ContainsAny_iff index_def)

lemma findRoute_main_root:
  "findRoute (fst (main_routes F d)) ''GET'' ''/'' = Some (''GET'', ''/'', hello)"
  by (simp add: main_routes_eq findRoute_def matches_def isWildcard_def HasPrefix_def)

lemma findRoute_main_picture:
  "findRoute (fst (main_routes F d)) ''GET'' ''/picture'' = Some (''GET'', ''/picture'', ServeHTTP customHandler)"
  by (simp add: main_routes_eq findRoute_def matches_def isWildcard_def HasPrefix_def)


lemma calls_Write: "calls (Write w b) = calls w @ [Call_Write b]"
  by (simp add: Write_def writeHeader_def Let_def)

lemma calls_WriteHeader: "calls (WriteHeader w c) = calls w @ [Call_WriteHeader c]"
  by (simp add: WriteHeader_def writeHeader_def)

lemma adapter_fresh:
  "\<not> wroteHeader w \<Longrightarrow> status (Write (WriteHeader w 503) ''bad'') = 503
     \<and> body (Write (WriteHeader w 503) ''bad'') = body w @ ''bad''"
  by (simp add: Write_def WriteHeader_def writeHeader_def bodyAllowedForStatus_def)


lemma FileServer_metachar:
  "ContainsAny path ''{}*'' \<Longrightarrow>
     FileServer F r path root = (r, Some (Panic ''FileServer does not permit any URL parameters.''))"
  by (simp add: FileServer_def)

lemma FileServer_empty: "FileServer F r [] root = (r, Some (IndexOutOfRange (- 1)))"
  by (simp add: FileServer_def ContainsAny_def index_def)





lemma serve_main_root:
  assumes "Method rq = ''GET''" "routePath rq = ''/''"
  shows "serve (fst (main_routes F d)) rq = Some (finishRequest (Write newResponseWriter ''hello world''))"
  using assms by (simp add: serve_def Mux_ServeHTTP_def findRoute_main_root hello_def)

lemma serve_main_picture:
  assumes "Method rq = ''GET''" "routePath rq = ''/picture''"
  shows "serve (fst (main_routes F d)) rq =
     Some (finishRequest (ServeHTTP customHandler newResponseWriter (rq\<lparr>RoutePattern := ''/picture''\<rparr>)))"
  using assms by (simp add: serve_def Mux_ServeHTTP_def findRoute_main_picture)


lemma customHandler_err:
  "Values_Get (URL_Query r) ''err'' \<noteq> [] \<Longrightarrow>
     customHandler w r = (w, Some (errors_New (Values_Get (URL_Query r) ''err'')))"
  by (simp add: customHandler_def)

lemma observe_fresh_Write:
  "status (finishRequest (Write newResponseWriter b)) = 200
   \<and> body (finishRequest (Write newResponseWriter b)) = b"
  by (simp add: finishRequest_def Write_def writeHeader_def newResponseWriter_def bodyAllowedForStatus_def)



section \<open>The error-returning handler: theorems\<close>



text \<open>
  Claim C5. For every GET request that the router sees as \<^verbatim>\<open>/picture\<close> and whose
  \<^verbatim>\<open>err\<close> parameter is absent or has the empty string as its first value, the response
  has status 200 and the body \<^verbatim>\<open>A whole bunch of messages and such\<close>; a request without
  the parameter and a request with \<^verbatim>\<open>err=\<close> leave the writer in the same state.
\<close>

theorem C5_picture_success:
  fixes F :: "'fs \<Rightarrow> http_Handler"
  shows "(Method rq = ''GET'' \<and> routePath rq = ''/picture''
          \<and> (URL_Query rq ''err'' = None \<or> (\<exists>vs. URL_Query rq ''err'' = Some ([] # vs))) \<longrightarrow>
            map_option (\<lambda>x. (status x, body x)) (serve (fst (main_routes F d)) rq)
              = Some (200, ''A whole bunch of messages and such''))
       \<and> (Method rqa = ''GET'' \<and> routePath rqa = ''/picture'' \<and> URL_Query rqa ''err'' = None
          \<and> Method rqb = ''GET'' \<and> routePath rqb = ''/picture'' \<and> URL_Query rqb ''err'' = Some ([] # vsb) \<longrightarrow>
            serve (fst (main_routes F d)) rqa = serve (fst (main_routes F d)) rqb)"
proof -
  have ok: "serve (fst (main_routes F d)) x
      = Some (finishRequest (Write newResponseWriter ''A whole bunch of messages and such''))"
    if "Method x = ''GET''" "routePath x = ''/picture''" "Values_Get (URL_Query x) ''err'' = []"
    for x :: Request
    using that by (simp add: serve_main_picture ServeHTTP_def customHandler_def)
  have get: "Values_Get (URL_Query x) ''err'' = []"
    if "URL_Query x ''err'' = None \<or> (\<exists>vs. URL_Query x ''err'' = Some ([] # vs))"
    for x :: Request
    using that by (auto simp: Values_Get_def)
  show ?thesis
  proof (intro conjI impI)
    assume "Method rq = ''GET'' \<and> routePath rq = ''/picture''
          \<and> (URL_Query rq ''err'' = None \<or> (\<exists>vs. URL_Query rq ''err'' = Some ([] # vs)))"
    then have "serve (fst (main_routes F d)) rq
      = Some (finishRequest (Write newResponseWriter ''A whole bunch of messages and such''))"
      using ok [of rq] get [of rq] by blast
    then show "map_option (\<lambda>x. (status x, body x)) (serve (fst (main_routes F d)) rq)
              = Some (200, ''A whole bunch of messages and such'')"
      by (simp add: observe_fresh_Write)
  next
    assume a: "Method rqa = ''GET'' \<and> routePath rqa = ''/picture'' \<and> URL_Query rqa ''err'' = None
          \<and> Method rqb = ''GET'' \<and> routePath rqb = ''/picture'' \<and> URL_Query rqb ''err'' = Some ([] # vsb)"
    then have "serve (fst (main_routes F d)) rqa
      = Some (finishRequest (Write newResponseWriter ''A whole bunch of messages and such''))"
      using ok [of rqa] get [of rqa] by blast
    moreover from a have "serve (fst (main_routes F d)) rqb
      = Some (finishRequest (Write newResponseWriter ''A whole bunch of messages and such''))"
      using ok [of rqb] get [of rqb] by blast
    ultimately show "serve (fst (main_routes F d)) rqa = serve (fst (main_routes F d)) rqb" by simp
  qed
qed

text \<open>An instance: \<^verbatim>\<open>GET /picture\<close> and \<^verbatim>\<open>GET /picture?err=\<close>.\<close>

theorem C5_picture_success_witness:
  "map_option (\<lambda>x. (status x, body x))
      (serve (fst (main_routes echoFileServer ())) (getRequest ''/picture'' [''err'' \<mapsto> ['''']]))
     = Some (200, ''A whole bunch of messages and such'')
   \<and> serve (fst (main_routes echoFileServer ())) (getRequest ''/picture'' Map.empty)
     = serve (fst (main_routes echoFileServer ())) (getRequest ''/picture'' [''err'' \<mapsto> ['''']])"
  using C5_picture_success [where rq = "getRequest ''/picture'' [''err'' \<mapsto> ['''']]"
      and F = echoFileServer and d = "()" and rqa = "getRequest ''/picture'' Map.empty"
      and rqb = "getRequest ''/picture'' [''err'' \<mapsto> ['''']]" and vsb = "[]"]
  by (simp add: getRequest_def routePath_def)

text \<open>
  Claim C7. For every GET request that the router sees as \<^verbatim>\<open>/\<close>, the response has
  status 200 and the body \<^verbatim>\<open>hello world\<close>.
\<close>

theorem C7_root_greeting:
  fixes F :: "'fs \<Rightarrow> http_Handler"
  shows "Method rq = ''GET'' \<and> routePath rq = ''/'' \<longrightarrow>
     map_option (\<lambda>x. (status x, body x)) (serve (fst (main_routes F d)) rq) = Some (200, ''hello world'')"
  by (simp add: serve_main_root observe_fresh_Write)

text \<open>An instance: \<^verbatim>\<open>GET /\<close>.\<close>

theorem C7_root_greeting_witness:
  "map_option (\<lambda>x. (status x, body x))
      (serve (fst (main_routes echoFileServer ())) (getRequest ''/'' Map.empty)) = Some (200, ''hello world'')"
  using C7_root_greeting [where rq = "getRequest ''/'' Map.empty" and F = echoFileServer and d = "()"]
  by (simp add: getRequest_def routePath_def)

text \<open>
  Claim C10. When the \<^verbatim>\<open>err\<close> parameter is not empty, \<^verbatim>\<open>customHandler\<close> returns the
  error and the writer it was given, untouched; the response of the adapted handler is then
  what the adapter's two calls make of that writer (on a fresh writer: status 503, body
  \<^verbatim>\<open>bad\<close>). Whenever \<^verbatim>\<open>customHandler\<close> touches the writer it returns nil, and whenever it
  returns nil its one call is the write of the success body.
\<close>

theorem C10_customHandler_silent_on_failure:
  "(Values_Get (URL_Query r) ''err'' \<noteq> [] \<longrightarrow>
        customHandler w r = (w, Some (errors_New (Values_Get (URL_Query r) ''err'')))
      \<and> ServeHTTP customHandler w r = Write (WriteHeader w 503) ''bad''
      \<and> calls (ServeHTTP customHandler w r) = calls w @ [Call_WriteHeader 503, Call_Write ''bad'']
      \<and> status (ServeHTTP customHandler newResponseWriter r) = 503
      \<and> body (ServeHTTP customHandler newResponseWriter r) = ''bad'')
   \<and> (fst (customHandler w r) \<noteq> w \<longrightarrow>
        customHandler w r = (Write w ''A whole bunch of messages and such'', None))
   \<and> (snd (customHandler w r) = None \<longrightarrow>
        calls (fst (customHandler w r)) = calls w @ [Call_Write ''A whole bunch of messages and such''])"
proof (intro conjI impI)
  assume a: "Values_Get (URL_Query r) ''err'' \<noteq> []"
  then show "customHandler w r = (w, Some (errors_New (Values_Get (URL_Query r) ''err'')))"
    by (rule customHandler_err)
  then show eq: "ServeHTTP customHandler w r = Write (WriteHeader w 503) ''bad''"
    by (simp add: ServeHTTP_def)
  then show "calls (ServeHTTP customHandler w r) = calls w @ [Call_WriteHeader 503, Call_Write ''bad'']"
    by (simp add: calls_Write calls_WriteHeader)
  from a have "ServeHTTP customHandler newResponseWriter r = Write (WriteHeader newResponseWriter 503) ''bad''"
    by (simp add: ServeHTTP_def customHandler_def)
  moreover have "\<not> wroteHeader newResponseWriter" "body newResponseWriter = []"
    by (simp_all add: newResponseWriter_def)
  ultimately show "status (ServeHTTP customHandler newResponseWriter r) = 503"
    and "body (ServeHTTP customHandler newResponseWriter r) = ''bad''"
    using adapter_fresh [of newResponseWriter] by simp_all
next
  assume "fst (customHandler w r) \<noteq> w"
  then show "customHandler w r = (Write w ''A whole bunch of messages and such'', None)"
    by (simp add: customHandler_def Let_def split: if_splits)
next
  assume "snd (customHandler w r) = None"
  then show "calls (fst (customHandler w r)) = calls w @ [Call_Write ''A whole bunch of messages and such'']"
    by (simp add: customHandler_def Let_def calls_Write split: if_splits)
qed

text \<open>An instance: \<^verbatim>\<open>GET /picture?err=x\<close> on a fresh writer.\<close>

theorem C10_customHandler_silent_on_failure_witness:
  "customHandler newResponseWriter (getRequest ''/picture'' [''err'' \<mapsto> [''x'']])
     = (newResponseWriter, Some (errors_New ''x''))
   \<and> calls (ServeHTTP customHandler newResponseWriter (getRequest ''/picture'' [''err'' \<mapsto> [''x'']]))
     = [Call_WriteHeader 503, Call_Write ''bad'']
   \<and> status (ServeHTTP customHandler newResponseWriter (getRequest ''/picture'' [''err'' \<mapsto> [''x'']])) = 503
   \<and> body (ServeHTTP customHandler newResponseWriter (getRequest ''/picture'' [''err'' \<mapsto> [''x'']])) = ''bad''"
proof -
  let ?r = "getRequest ''/picture'' [''err'' \<mapsto> [''x'']]"
  note inst = C10_customHandler_silent_on_failure [where r = ?r and w = newResponseWriter]
  have val: "Values_Get (URL_Query ?r) ''err'' = ''x''"
    by (simp add: getRequest_def Values_Get_def)
  then have hyp: "Values_Get (URL_Query ?r) ''err'' \<noteq> []" by simp
  from inst hyp have
    "customHandler newResponseWriter ?r
       = (newResponseWriter, Some (errors_New (Values_Get (URL_Query ?r) ''err'')))"
    and "calls (ServeHTTP customHandler newResponseWriter ?r)
       = calls newResponseWriter @ [Call_WriteHeader 503, Call_Write ''bad'']"
    and "status (ServeHTTP customHandler newResponseWriter ?r) = 503"
    and "body (ServeHTTP customHandler newResponseWriter ?r) = ''bad''"
    by blast+
  then show ?thesis
    by (simp add: val newResponseWriter_def)
qed

text \<open>
  A wrapped function that writes \<^verbatim>\<open>partial\<close> and then returns an error: the writer holds
  its call and the adapter's two, the status is the 200 of the first write, and the body is
  the one text followed by the other. Both have written.
\<close>

theorem C6_counterexample_write_then_fail:
  "snd (partialThenFail newResponseWriter (getRequest ''/picture'' Map.empty)) = Some (errors_New ''boom'')
   \<and> calls (fst (partialThenFail newResponseWriter (getRequest ''/picture'' Map.empty)))
       = [Call_Write ''partial'']
   \<and> calls (ServeHTTP partialThenFail newResponseWriter (getRequest ''/picture'' Map.empty))
       = [Call_Write ''partial'', Call_WriteHeader 503, Call_Write ''bad'']
   \<and> status (ServeHTTP partialThenFail newResponseWriter (getRequest ''/picture'' Map.empty)) = 200
   \<and> body (ServeHTTP partialThenFail newResponseWriter (getRequest ''/picture'' Map.empty)) = ''partialbad''"
  by (simp add: partialThenFail_def ServeHTTP_def Write_def WriteHeader_def writeHeader_def
      newResponseWriter_def bodyAllowedForStatus_def)

text \<open>
  Claim C6, amended. On success the adapter leaves the writer as the wrapped function left
  it; on failure the adapter adds its two calls to whatever the wrapped function wrote.
  So for a wrapped function that writes nothing when it returns an error, the response is
  written by the wrapped function alone on success and by the adapter alone on failure.
\<close>

theorem C6_one_writer:
  fixes h :: Handler
  shows "(snd (h w r) = None \<longrightarrow> ServeHTTP h w r = fst (h w r))
   \<and> (snd (h w r) \<noteq> None \<longrightarrow>
        calls (ServeHTTP h w r) = calls (fst (h w r)) @ [Call_WriteHeader 503, Call_Write ''bad''])
   \<and> (snd (h w r) \<noteq> None \<and> fst (h w r) = w \<longrightarrow>
        ServeHTTP h w r = Write (WriteHeader w 503) ''bad''
      \<and> calls (ServeHTTP h w r) = calls w @ [Call_WriteHeader 503, Call_Write ''bad''])"
  by (cases "h w r") (auto simp: ServeHTTP_def calls_Write calls_WriteHeader)

text \<open>An instance: \<^verbatim>\<open>customHandler\<close> on \<^verbatim>\<open>GET /picture?err=x\<close>.\<close>

theorem C6_one_writer_witness:
  "snd (customHandler newResponseWriter (getRequest ''/picture'' [''err'' \<mapsto> [''x'']])) = Some (errors_New ''x'')
   \<and> fst (customHandler newResponseWriter (getRequest ''/picture'' [''err'' \<mapsto> [''x'']])) = newResponseWriter
   \<and> calls (ServeHTTP customHandler newResponseWriter (getRequest ''/picture'' [''err'' \<mapsto> [''x'']]))
       = [Call_WriteHeader 503, Call_Write ''bad'']"
proof -
  let ?r = "getRequest ''/picture'' [''err'' \<mapsto> [''x'']]"
  note inst = C6_one_writer [where h = customHandler and w = newResponseWriter and r = ?r]
  have run: "customHandler newResponseWriter ?r = (newResponseWriter, Some (errors_New ''x''))"
    by (simp add: customHandler_def getRequest_def Values_Get_def)
  then have hyp: "snd (customHandler newResponseWriter ?r) \<noteq> None
      \<and> fst (customHandler newResponseWriter ?r) = newResponseWriter"
    by simp
  from inst hyp have "calls (ServeHTTP customHandler newResponseWriter ?r)
      = calls newResponseWriter @ [Call_WriteHeader 503, Call_Write ''bad'']"
    by blast
  then have "calls (ServeHTTP customHandler newResponseWriter ?r)
      = [Call_WriteHeader 503, Call_Write ''bad'']"
    by (simp add: newResponseWriter_def)
  with run show ?thesis by simp
qed

section \<open>Facts about the mount\<close>














lemma metachar_ContainsAny:
  "(\<exists>c \<in> set path. c = CHR ''{'' \<or> c = CHR ''}'' \<or> c = CHR ''*'') \<longleftrightarrow> ContainsAny path ''{}*''"
  by (simp add: ContainsAny_iff)









section \<open>The static file mount: theorems\<close>

text \<open>
  Claim C2. For every mount path that contains one of the characters \<^verbatim>\<open>{\<close>, \<^verbatim>\<open>}\<close> or
  \<^verbatim>\<open>*\<close>, \<^verbatim>\<open>FileServer\<close> ends with the panic of line 74, whatever the router and the file
  system are; it never returns normally.
\<close>

theorem C2_metachar_path_panics:
  fixes F :: "'fs \<Rightarrow> http_Handler"
  assumes "\<exists>c \<in> set path. c = CHR ''{'' \<or> c = CHR ''}'' \<or> c = CHR ''*''"
  shows "snd (FileServer F r path root) = Some (Panic ''FileServer does not permit any URL parameters.'')
     \<and> snd (FileServer F r path root) \<noteq> None"
proof -
  from assms have "ContainsAny path ''{}*''" by (simp only: metachar_ContainsAny)
  then show ?thesis by (simp add: FileServer_def)
qed

text \<open>An instance: the mount path \<^verbatim>\<open>/files/{id}\<close>.\<close>

theorem C2_metachar_path_panics_witness:
  "snd (FileServer echoFileServer [] ''/files/{id}'' ())
     = Some (Panic ''FileServer does not permit any URL parameters.'')"
proof -
  have "\<exists>c \<in> set ''/files/{id}''. c = CHR ''{'' \<or> c = CHR ''}'' \<or> c = CHR ''*''" by simp
  from C2_metachar_path_panics [OF this, where F = echoFileServer and r = "[]" and root = "()"]
  show ?thesis by blast
qed

text \<open>
  Claim C9. The check of the mount path comes before every registration: for a mount path
  that contains one of the characters \<^verbatim>\<open>{\<close>, \<^verbatim>\<open>}\<close> or \<^verbatim>\<open>*\<close>, the router that
  \<^verbatim>\<open>FileServer\<close> leaves behind is the router it was given, with no redirect route and no
  wildcard route added.
\<close>

theorem C9_no_route_on_validation_panic:
  fixes F :: "'fs \<Rightarrow> http_Handler"
  assumes "\<exists>c \<in> set path. c = CHR ''{'' \<or> c = CHR ''}'' \<or> c = CHR ''*''"
  shows "fst (FileServer F r path root) = r"
proof -
  from assms have "ContainsAny path ''{}*''" by (simp only: metachar_ContainsAny)
  then show ?thesis by (simp add: FileServer_metachar)
qed

text \<open>An instance: the mount path \<^verbatim>\<open>/static/*\<close> on a router that has one route.\<close>

theorem C9_no_route_on_validation_panic_witness:
  "fst (FileServer echoFileServer [(''GET'', ''/'', hello)] ''/static/*'' ()) = [(''GET'', ''/'', hello)]"
proof -
  have "\<exists>c \<in> set ''/static/*''. c = CHR ''{'' \<or> c = CHR ''}'' \<or> c = CHR ''*''" by simp
  from C9_no_route_on_validation_panic [OF this, where F = echoFileServer
      and r = "[(''GET'', ''/'', hello)]" and root = "()"]
  show ?thesis .
qed

text \<open>
  Claim C8. The empty mount path has none of the three characters, so it passes the check of
  line 73; the condition of line 77 then reads \<^verbatim>\<open>path[len(path)-1]\<close>, the index \<open>-1\<close> of
  an empty string, and \<^verbatim>\<open>FileServer\<close> ends with the runtime's out-of-range panic, the
  router untouched. Every mount path on which \<^verbatim>\<open>FileServer\<close> returns normally is
  non-empty.
\<close>

theorem C8_empty_path_index_panic:
  fixes F :: "'fs \<Rightarrow> http_Handler"
  shows "\<not> ContainsAny [] ''{}*''
     \<and> FileServer F r [] root = (r, Some (IndexOutOfRange (- 1)))
     \<and> (\<forall>path. snd (FileServer F r path root) = None \<longrightarrow> path \<noteq> [])"
proof (intro conjI allI impI)
  show "\<not> ContainsAny [] ''{}*''" by (simp add: ContainsAny_def)
  show "FileServer F r [] root = (r, Some (IndexOutOfRange (- 1)))" by (rule FileServer_empty)
next
  fix path
  assume "snd (FileServer F r path root) = None"
  then show "path \<noteq> []" using FileServer_empty [of F r root] by auto
qed

text \<open>An instance: the mount path \<^verbatim>\<open>/files\<close> of \<^verbatim>\<open>main\<close>, and the empty one.\<close>

theorem C8_empty_path_index_panic_witness:
  "snd (FileServer echoFileServer [] ''/files'' ()) = None \<and> ''/files'' \<noteq> []
   \<and> FileServer echoFileServer [] [] () = ([], Some (IndexOutOfRange (- 1)))"
proof -
  note inst = C8_empty_path_index_panic [where F = echoFileServer and r = "[]" and root = "()"]
  have ok: "snd (FileServer echoFileServer [] ''/files'' ()) = None"
    by (simp add: FileServer_def ContainsAny_def index_def Mux_Get_def Mux_handle_def)
  from inst ok have "''/files'' \<noteq> []" by blast
  moreover from inst have "FileServer echoFileServer [] [] () = ([], Some (IndexOutOfRange (- 1)))"
    by blast
  ultimately show ?thesis using ok by blast
qed






end
